theory Spec2Isabelle
  imports Main
begin

section \<open>The gRPC transport of the Access Approval client\<close>

text \<open>
  A shallow embedding of \<^verbatim>\<open>AccessApprovalGrpcTransport\<close>
  (\<^verbatim>\<open>transports/grpc.py\<close>): the constructor, \<^verbatim>\<open>create_channel\<close>, the
  \<^verbatim>\<open>grpc_channel\<close> property and the seven stub properties.

  Python objects whose identity matters (channels, stubs) carry the position in the call
  log at which they were made. Every call into a collaborator (the authentication library,
  the transport-security library, gRPC) is appended to that log, so that "is never
  invoked" and "constructs nothing new" are statements about the log.
\<close>

subsection \<open>Data\<close>

datatype error =
    DuplicateCredentialArgs
  | DefaultCredentialsError
  | MutualTLSChannelError
  | CallbackError string

datatype credentials = Credentials string

text \<open>
  The value of the local variable \<^verbatim>\<open>credentials\<close>: \<^verbatim>\<open>None\<close>, the
  \<^verbatim>\<open>False\<close> that the constructor assigns when a channel is injected, or a
  credentials object. The caller's argument is annotated
  \<^verbatim>\<open>credentials.Credentials = None\<close>, so it is one of the other two.
\<close>

datatype py_credentials = PyNone | PyFalse | Creds credentials

definition py_value :: "credentials option \<Rightarrow> py_credentials" where
  "py_value c = (case c of None \<Rightarrow> PyNone | Some x \<Rightarrow> Creds x)"

datatype ssl_credentials =
    SslChannelCredentials string string
  | ApplicationDefaultSsl

record channel =
  channel_id :: nat
  target :: string
  channel_credentials :: credentials
  channel_credentials_file :: "string option"
  channel_scopes :: "string list"
  channel_ssl_credentials :: "ssl_credentials option"
  channel_quota_project_id :: "string option"

record stub =
  stub_id :: nat
  stub_channel :: channel
  stub_method :: string
  request_serializer :: string
  response_deserializer :: string

datatype call =
    AuthDefault "string list" "string option"
  | LoadCredentialsFromFile string "string list" "string option"
  | ClientCertSource
  | GrpcSslChannelCredentials string string
  | SslCredentialsDefault
  | GrpcHelpersCreateChannel string
  | UnaryUnary nat string

type_synonym world = "call list"

text \<open>
  What the process environment answers: the ambient credentials that
  \<^verbatim>\<open>auth.default\<close> discovers for a scope list and quota project (if any), the
  credentials a file holds (if any), the application-default SSL credentials (if any), and
  the class constant \<^verbatim>\<open>AUTH_SCOPES\<close>, which the base class declares.
\<close>

record env =
  ambient :: "string list \<Rightarrow> string option \<Rightarrow> credentials option"
  credential_files :: "string \<Rightarrow> credentials option"
  application_default_ssl :: "ssl_credentials option"
  AUTH_SCOPES :: "string list"

record init_args =
  host :: string
  credentials :: "credentials option"
  credentials_file :: "string option"
  scopes :: "string list option"
  channel :: "channel option"
  api_mtls_endpoint :: "string option"
  client_cert_source :: "(error + string \<times> string) option"
  quota_project_id :: "string option"

text \<open>The attributes of an instance; \<^verbatim>\<open>hasattr(self, "_grpc_channel")\<close> is \<open>Some\<close>.\<close>

record transport =
  self_grpc_channel :: "channel option"
  self_stubs :: "string \<rightharpoonup> stub"
  self_host :: string
  self_credentials :: py_credentials

subsection \<open>Collaborators\<close>

definition auth_default ::
  "env \<Rightarrow> string list \<Rightarrow> string option \<Rightarrow> world \<Rightarrow> error + (credentials \<times> world)" where
  "auth_default e sc q w =
     (case ambient e sc q of
        None \<Rightarrow> Inl DefaultCredentialsError
      | Some c \<Rightarrow> Inr (c, w @ [AuthDefault sc q]))"

definition load_credentials_from_file ::
  "env \<Rightarrow> string \<Rightarrow> string list \<Rightarrow> string option \<Rightarrow> world \<Rightarrow> error + (credentials \<times> world)" where
  "load_credentials_from_file e f sc q w =
     (case credential_files e f of
        None \<Rightarrow> Inl DefaultCredentialsError
      | Some c \<Rightarrow> Inr (c, w @ [LoadCredentialsFromFile f sc q]))"

text \<open>
  Modelled from the spec: \<^verbatim>\<open>grpc_helpers.create_channel\<close> of the API core library,
  which \<^verbatim>\<open>create_channel\<close> delegates to. After the docstring of
  \<^verbatim>\<open>create_channel\<close> and section 4.1 of the specification: credentials and a
  credentials file together are a configuration error; a credentials file is loaded; given
  credentials are used; with neither, the credentials are discovered from the environment
  for the scopes. The channel keeps the arguments it was built from.
\<close>

definition grpc_helpers_create_channel ::
  "env \<Rightarrow> string \<Rightarrow> py_credentials \<Rightarrow> string option \<Rightarrow> string list \<Rightarrow> string option
     \<Rightarrow> ssl_credentials option \<Rightarrow> world \<Rightarrow> error + (channel \<times> world)" where
  "grpc_helpers_create_channel e tgt cr f sc q ssl w =
     (let w0 = w @ [GrpcHelpersCreateChannel tgt];
          mk = (\<lambda>(c, w1). Inr (\<lparr>channel_id = length w, target = tgt,
                  channel_credentials = c, channel_credentials_file = f,
                  channel_scopes = sc, channel_ssl_credentials = ssl,
                  channel_quota_project_id = q\<rparr>, w1))
      in case (cr, f) of
           (Creds c, Some p) \<Rightarrow> Inl DuplicateCredentialArgs
         | (Creds c, None) \<Rightarrow> mk (c, w0)
         | (_, Some p) \<Rightarrow>
             (case load_credentials_from_file e p sc q w0 of
                Inl err \<Rightarrow> Inl err | Inr r \<Rightarrow> mk r)
         | (_, None) \<Rightarrow>
             (case auth_default e sc q w0 of
                Inl err \<Rightarrow> Inl err | Inr r \<Rightarrow> mk r))"

text \<open>
  Modelled from the spec: the constructor of the base class
  \<^verbatim>\<open>AccessApprovalTransport\<close> (\<^verbatim>\<open>transports/base.py\<close>), which sets
  \<^verbatim>\<open>_host\<close> and \<^verbatim>\<open>_credentials\<close>. After section 4.1 of the specification:
  explicit credentials and a credentials file together are a configuration error; with
  neither, the credentials are discovered from the environment for the requested scopes,
  which fails with an authentication error when there are none; and when the caller
  injected a channel, which the constructor signals by passing \<^verbatim>\<open>False\<close> for the
  credentials, resolution is skipped entirely.
\<close>

definition base_init ::
  "env \<Rightarrow> string \<Rightarrow> py_credentials \<Rightarrow> string option \<Rightarrow> string list \<Rightarrow> string option
     \<Rightarrow> world \<Rightarrow> error + ((string \<times> py_credentials) \<times> world)" where
  "base_init e h cr f sc q w =
     (case cr of
        PyFalse \<Rightarrow> Inr ((h, PyFalse), w)
      | Creds c \<Rightarrow>
          (case f of
             Some p \<Rightarrow> Inl DuplicateCredentialArgs
           | None \<Rightarrow> Inr ((h, Creds c), w))
      | PyNone \<Rightarrow>
          (case f of
             Some p \<Rightarrow>
               (case load_credentials_from_file e p sc q w of
                  Inl err \<Rightarrow> Inl err | Inr (c, w1) \<Rightarrow> Inr ((h, Creds c), w1))
           | None \<Rightarrow>
               (case auth_default e sc q w of
                  Inl err \<Rightarrow> Inl err | Inr (c, w1) \<Rightarrow> Inr ((h, Creds c), w1))))"

subsection \<open>The transport\<close>

text \<open>\<^verbatim>\<open>scopes or self.AUTH_SCOPES\<close>: an absent or empty scope list is falsy.\<close>

definition scopes_or :: "string list option \<Rightarrow> string list \<Rightarrow> string list" where
  "scopes_or sc d = (case sc of None \<Rightarrow> d | Some [] \<Rightarrow> d | Some (x # xs) \<Rightarrow> x # xs)"

definition create_channel ::
  "env \<Rightarrow> string \<Rightarrow> py_credentials \<Rightarrow> string option \<Rightarrow> string list option \<Rightarrow> string option
     \<Rightarrow> ssl_credentials option \<Rightarrow> world \<Rightarrow> error + (channel \<times> world)" where
  "create_channel e h cr f sc q ssl w =
     grpc_helpers_create_channel e h cr f (scopes_or sc (AUTH_SCOPES e)) q ssl w"

text \<open>
  The host of the mutual-TLS branch:
  \<^verbatim>\<open>api_mtls_endpoint if ":" in api_mtls_endpoint else api_mtls_endpoint + ":443"\<close>.
\<close>

definition mtls_host :: "string \<Rightarrow> string" where
  "mtls_host ep = (if CHR '':'' \<in> set ep then ep else ep @ '':443'')"

text \<open>
  The SSL credentials of the mutual-TLS branch: from the callback when there is one,
  otherwise \<^verbatim>\<open>SslCredentials().ssl_credentials\<close>.
\<close>

definition assemble_ssl ::
  "env \<Rightarrow> (error + string \<times> string) option \<Rightarrow> world \<Rightarrow> error + (ssl_credentials \<times> world)" where
  "assemble_ssl e cb w =
     (case cb of
        Some r \<Rightarrow>
          (case r of
             Inl err \<Rightarrow> Inl err
           | Inr (cert, key) \<Rightarrow>
               Inr (SslChannelCredentials cert key,
                    w @ [ClientCertSource, GrpcSslChannelCredentials cert key]))
      | None \<Rightarrow>
          (case application_default_ssl e of
             None \<Rightarrow> Inl MutualTLSChannelError
           | Some s \<Rightarrow> Inr (s, w @ [SslCredentialsDefault])))"

text \<open>
  The end of \<^verbatim>\<open>__init__\<close>, common to its branches: \<^verbatim>\<open>self._stubs = {}\<close>
  and the base constructor, called with the local \<^verbatim>\<open>host\<close> and
  \<^verbatim>\<open>credentials\<close> as the branch left them, the caller's credentials file and
  quota project, and \<^verbatim>\<open>scopes or self.AUTH_SCOPES\<close>.
\<close>

definition finish_init ::
  "env \<Rightarrow> init_args \<Rightarrow> channel option \<Rightarrow> string \<Rightarrow> py_credentials \<Rightarrow> world
     \<Rightarrow> error + (transport \<times> world)" where
  "finish_init e a ch h cr w =
     (case base_init e h cr (credentials_file a) (scopes_or (scopes a) (AUTH_SCOPES e))
             (quota_project_id a) w of
        Inl err \<Rightarrow> Inl err
      | Inr ((h', cr'), w1) \<Rightarrow>
          Inr (\<lparr>self_grpc_channel = ch, self_stubs = Map.empty,
                self_host = h', self_credentials = cr'\<rparr>, w1))"

text \<open>
  \<^verbatim>\<open>__init__\<close>. The three branches are \<^verbatim>\<open>if channel\<close>,
  \<^verbatim>\<open>elif api_mtls_endpoint\<close> (a non-empty string) and neither.
\<close>

definition init :: "env \<Rightarrow> init_args \<Rightarrow> world \<Rightarrow> error + (transport \<times> world)" where
  "init e a w =
     (case channel a of
        Some ch \<Rightarrow> finish_init e a (Some ch) (host a) PyFalse w
      | None \<Rightarrow>
          (case api_mtls_endpoint a of
             Some (x # xs) \<Rightarrow>
               (let h = mtls_host (x # xs) in
                case (if credentials a = None
                      then (case auth_default e (AUTH_SCOPES e) (quota_project_id a) w of
                              Inl err \<Rightarrow> Inl err | Inr (c, w1) \<Rightarrow> Inr (Creds c, w1))
                      else Inr (py_value (credentials a), w)) of
                  Inl err \<Rightarrow> Inl err
                | Inr (cr, w1) \<Rightarrow>
                    (case assemble_ssl e (client_cert_source a) w1 of
                       Inl err \<Rightarrow> Inl err
                     | Inr (ssl, w2) \<Rightarrow>
                         (case create_channel e h cr (credentials_file a)
                                 (Some (scopes_or (scopes a) (AUTH_SCOPES e)))
                                 (quota_project_id a) (Some ssl) w2 of
                            Inl err \<Rightarrow> Inl err
                          | Inr (ch, w3) \<Rightarrow> finish_init e a (Some ch) h cr w3)))
           | _ \<Rightarrow> finish_init e a None (host a) (py_value (credentials a)) w))"

text \<open>The \<^verbatim>\<open>grpc_channel\<close> property: \<^verbatim>\<open>create_channel(self._host, credentials=self._credentials)\<close>
  when the instance has no channel yet.\<close>

definition grpc_channel ::
  "env \<Rightarrow> transport \<Rightarrow> world \<Rightarrow> error + (channel \<times> transport \<times> world)" where
  "grpc_channel e t w =
     (case self_grpc_channel t of
        Some ch \<Rightarrow> Inr (ch, t, w)
      | None \<Rightarrow>
          (case create_channel e (self_host t) (self_credentials t) None None None None w of
             Inl err \<Rightarrow> Inl err
           | Inr (ch, w1) \<Rightarrow> Inr (ch, t\<lparr>self_grpc_channel := Some ch\<rparr>, w1)))"

text \<open>\<^verbatim>\<open>channel.unary_unary(path, request_serializer=..., response_deserializer=...)\<close>
  makes a new bound callable.\<close>

definition unary_unary ::
  "channel \<Rightarrow> string \<Rightarrow> string \<Rightarrow> string \<Rightarrow> world \<Rightarrow> stub \<times> world" where
  "unary_unary ch p rq rs w =
     (\<lparr>stub_id = length w, stub_channel = ch, stub_method = p,
       request_serializer = rq, response_deserializer = rs\<rparr>,
      w @ [UnaryUnary (channel_id ch) p])"

text \<open>The stub properties, one constructor for each, in the order of the source.\<close>

datatype operation =
    list_approval_requests
  | get_approval_request
  | approve_approval_request
  | dismiss_approval_request
  | get_access_approval_settings
  | update_access_approval_settings
  | delete_access_approval_settings

definition operations :: "operation list" where
  "operations =
     [list_approval_requests, get_approval_request, approve_approval_request,
      dismiss_approval_request, get_access_approval_settings,
      update_access_approval_settings, delete_access_approval_settings]"

fun stub_key :: "operation \<Rightarrow> string" where
  "stub_key list_approval_requests = ''list_approval_requests''"
| "stub_key get_approval_request = ''get_approval_request''"
| "stub_key approve_approval_request = ''approve_approval_request''"
| "stub_key dismiss_approval_request = ''dismiss_approval_request''"
| "stub_key get_access_approval_settings = ''get_access_approval_settings''"
| "stub_key update_access_approval_settings = ''update_access_approval_settings''"
| "stub_key delete_access_approval_settings = ''delete_access_approval_settings''"

fun method_path :: "operation \<Rightarrow> string" where
  "method_path list_approval_requests =
     ''/google.cloud.accessapproval.v1.AccessApproval/ListApprovalRequests''"
| "method_path get_approval_request =
     ''/google.cloud.accessapproval.v1.AccessApproval/GetApprovalRequest''"
| "method_path approve_approval_request =
     ''/google.cloud.accessapproval.v1.AccessApproval/ApproveApprovalRequest''"
| "method_path dismiss_approval_request =
     ''/google.cloud.accessapproval.v1.AccessApproval/DismissApprovalRequest''"
| "method_path get_access_approval_settings =
     ''/google.cloud.accessapproval.v1.AccessApproval/GetAccessApprovalSettings''"
| "method_path update_access_approval_settings =
     ''/google.cloud.accessapproval.v1.AccessApproval/UpdateAccessApprovalSettings''"
| "method_path delete_access_approval_settings =
     ''/google.cloud.accessapproval.v1.AccessApproval/DeleteAccessApprovalSettings''"

fun serializer :: "operation \<Rightarrow> string" where
  "serializer list_approval_requests = ''accessapproval.ListApprovalRequestsMessage.serialize''"
| "serializer get_approval_request = ''accessapproval.GetApprovalRequestMessage.serialize''"
| "serializer approve_approval_request =
     ''accessapproval.ApproveApprovalRequestMessage.serialize''"
| "serializer dismiss_approval_request =
     ''accessapproval.DismissApprovalRequestMessage.serialize''"
| "serializer get_access_approval_settings =
     ''accessapproval.GetAccessApprovalSettingsMessage.serialize''"
| "serializer update_access_approval_settings =
     ''accessapproval.UpdateAccessApprovalSettingsMessage.serialize''"
| "serializer delete_access_approval_settings =
     ''accessapproval.DeleteAccessApprovalSettingsMessage.serialize''"

fun deserializer :: "operation \<Rightarrow> string" where
  "deserializer list_approval_requests =
     ''accessapproval.ListApprovalRequestsResponse.deserialize''"
| "deserializer get_approval_request = ''accessapproval.ApprovalRequest.deserialize''"
| "deserializer approve_approval_request = ''accessapproval.ApprovalRequest.deserialize''"
| "deserializer dismiss_approval_request = ''accessapproval.ApprovalRequest.deserialize''"
| "deserializer get_access_approval_settings =
     ''accessapproval.AccessApprovalSettings.deserialize''"
| "deserializer update_access_approval_settings =
     ''accessapproval.AccessApprovalSettings.deserialize''"
| "deserializer delete_access_approval_settings = ''empty.Empty.FromString''"

text \<open>
  The body every stub property shares:
  \<^verbatim>\<open>if key not in self._stubs: self._stubs[key] = self.grpc_channel.unary_unary(...)\<close>,
  then \<^verbatim>\<open>return self._stubs[key]\<close>.
\<close>

definition stub_property ::
  "operation \<Rightarrow> env \<Rightarrow> transport \<Rightarrow> world \<Rightarrow> error + (stub \<times> transport \<times> world)" where
  "stub_property opn e t w =
     (case self_stubs t (stub_key opn) of
        Some f \<Rightarrow> Inr (f, t, w)
      | None \<Rightarrow>
          (case grpc_channel e t w of
             Inl err \<Rightarrow> Inl err
           | Inr (ch, t1, w1) \<Rightarrow>
               (case unary_unary ch (method_path opn) (serializer opn) (deserializer opn) w1 of
                  (f, w2) \<Rightarrow>
                    Inr (f, t1\<lparr>self_stubs := (self_stubs t1)(stub_key opn \<mapsto> f)\<rparr>, w2))))"

subsection \<open>Derived notions used in the statements\<close>

text \<open>
  The operation name that a stub key stands for: the key
  \<^verbatim>\<open>list_approval_requests\<close> names the operation \<^verbatim>\<open>ListApprovalRequests\<close>.
\<close>

definition upper :: "char \<Rightarrow> char" where
  "upper c =
     (case map_of (zip ''abcdefghijklmnopqrstuvwxyz'' ''ABCDEFGHIJKLMNOPQRSTUVWXYZ'') c of
        Some u \<Rightarrow> u | None \<Rightarrow> c)"

fun camel_case :: "bool \<Rightarrow> string \<Rightarrow> string" where
  "camel_case up [] = []"
| "camel_case up (c # cs) =
     (if c = CHR ''_'' then camel_case True cs
      else (if up then upper c else c) # camel_case False cs)"

definition service_prefix :: string where
  "service_prefix = ''/google.cloud.accessapproval.v1.AccessApproval/''"

text \<open>The part of a channel that the arguments of its construction determine.\<close>

definition channel_config ::
  "channel \<Rightarrow> credentials \<times> string option \<times> string list \<times> ssl_credentials option \<times> string option"
  where
  "channel_config ch =
     (channel_credentials ch, channel_credentials_file ch, channel_scopes ch,
      channel_ssl_credentials ch, channel_quota_project_id ch)"

text \<open>Construct an instance, then read its \<^verbatim>\<open>grpc_channel\<close> property once.\<close>

definition first_channel :: "env \<Rightarrow> init_args \<Rightarrow> world \<Rightarrow> error + channel" where
  "first_channel e a w =
     (case init e a w of
        Inl err \<Rightarrow> Inl err
      | Inr (t, w1) \<Rightarrow>
          (case grpc_channel e t w1 of
             Inl err \<Rightarrow> Inl err
           | Inr (ch, t1, w2) \<Rightarrow> Inr ch))"

subsection \<open>Concrete inputs\<close>

text \<open>An environment with ambient credentials for every scope list and default SSL
  credentials, and no credentials files.\<close>

definition example_env :: env where
  "example_env =
     \<lparr>ambient = (\<lambda>sc q. Some (Credentials ''ambient'')),
      credential_files = (\<lambda>p. None),
      application_default_ssl = Some ApplicationDefaultSsl,
      AUTH_SCOPES = [''https://www.googleapis.com/auth/cloud-platform'']\<rparr>"

text \<open>The defaults of the keyword arguments of \<^verbatim>\<open>__init__\<close>.\<close>

definition default_args :: init_args where
  "default_args =
     \<lparr>host = ''accessapproval.googleapis.com'', credentials = None,
      credentials_file = None, scopes = None, channel = None,
      api_mtls_endpoint = None, client_cert_source = None, quota_project_id = None\<rparr>"

definition example_channel :: channel where
  "example_channel =
     \<lparr>channel_id = 0, target = ''localhost:8080'',
      channel_credentials = Credentials ''own'', channel_credentials_file = None,
      channel_scopes = [], channel_ssl_credentials = None,
      channel_quota_project_id = None\<rparr>"

text \<open>An instance around an injected channel, and one that has no channel yet.\<close>

definition injected_transport :: transport where
  "injected_transport =
     \<lparr>self_grpc_channel = Some example_channel, self_stubs = Map.empty,
      self_host = ''accessapproval.googleapis.com'', self_credentials = PyFalse\<rparr>"

definition lazy_transport :: transport where
  "lazy_transport =
     \<lparr>self_grpc_channel = None, self_stubs = Map.empty,
      self_host = ''accessapproval.googleapis.com'',
      self_credentials = Creds (Credentials ''ambient'')\<rparr>"

definition lazy_channel :: channel where
  "lazy_channel =
     \<lparr>channel_id = 0, target = ''accessapproval.googleapis.com'',
      channel_credentials = Credentials ''ambient'', channel_credentials_file = None,
      channel_scopes = [''https://www.googleapis.com/auth/cloud-platform''],
      channel_ssl_credentials = None, channel_quota_project_id = None\<rparr>"

text \<open>Arguments with both credentials and a credentials file, with a mutual-TLS
  endpoint, and with a scope list and quota project of the caller's own.\<close>

definition duplicate_args :: init_args where
  "duplicate_args =
     default_args\<lparr>credentials := Some (Credentials ''explicit''),
                  credentials_file := Some ''credentials.json''\<rparr>"

definition mtls_args :: init_args where
  "mtls_args =
     default_args\<lparr>api_mtls_endpoint := Some ''accessapproval.mtls.googleapis.com''\<rparr>"

definition custom_args :: init_args where
  "custom_args =
     default_args\<lparr>scopes := Some [''https://www.googleapis.com/auth/cloud-platform.read-only''],
                  quota_project_id := Some ''billing-project''\<rparr>"

definition injected_args :: init_args where
  "injected_args = default_args\<lparr>channel := Some example_channel\<rparr>"

text \<open>The stubs that the first two stub properties make on the injected channel, the
  instance after each, and the calls they log.\<close>

definition list_stub :: stub where
  "list_stub =
     \<lparr>stub_id = 0, stub_channel = example_channel,
      stub_method = ''/google.cloud.accessapproval.v1.AccessApproval/ListApprovalRequests'',
      request_serializer = ''accessapproval.ListApprovalRequestsMessage.serialize'',
      response_deserializer = ''accessapproval.ListApprovalRequestsResponse.deserialize''\<rparr>"

definition get_stub :: stub where
  "get_stub =
     \<lparr>stub_id = 1, stub_channel = example_channel,
      stub_method = ''/google.cloud.accessapproval.v1.AccessApproval/GetApprovalRequest'',
      request_serializer = ''accessapproval.GetApprovalRequestMessage.serialize'',
      response_deserializer = ''accessapproval.ApprovalRequest.deserialize''\<rparr>"

definition after_list :: transport where
  "after_list =
     injected_transport\<lparr>self_stubs := [''list_approval_requests'' \<mapsto> list_stub]\<rparr>"

definition after_get :: transport where
  "after_get =
     injected_transport\<lparr>self_stubs :=
       [''list_approval_requests'' \<mapsto> list_stub, ''get_approval_request'' \<mapsto> get_stub]\<rparr>"

definition list_call :: call where
  "list_call =
     UnaryUnary 0 ''/google.cloud.accessapproval.v1.AccessApproval/ListApprovalRequests''"

definition get_call :: call where
  "get_call =
     UnaryUnary 0 ''/google.cloud.accessapproval.v1.AccessApproval/GetApprovalRequest''"

section \<open>Properties\<close>

subsection \<open>Auxiliary facts\<close>

lemma create_channel_grows:
  "create_channel e h cr f sc q ssl w = Inr (ch, w1) \<Longrightarrow> length w < length w1"
  by (auto simp: create_channel_def grpc_helpers_create_channel_def Let_def
      auth_default_def load_credentials_from_file_def
      split: option.splits sum.splits py_credentials.splits)

lemma grpc_channel_present:
  "self_grpc_channel t = Some ch \<Longrightarrow> grpc_channel e t w = Inr (ch, t, w)"
  by (simp add: grpc_channel_def)

lemma grpc_channel_result:
  "grpc_channel e t w = Inr (ch, t1, w1) \<Longrightarrow>
     self_grpc_channel t1 = Some ch \<and> self_stubs t1 = self_stubs t \<and> length w \<le> length w1"
  by (auto simp: grpc_channel_def split: option.splits sum.splits
      dest: create_channel_grows)

lemma stub_property_cached:
  "self_stubs t (stub_key opn) = Some f \<Longrightarrow> stub_property opn e t w = Inr (f, t, w)"
  by (simp add: stub_property_def)

lemma stub_property_stores:
  "stub_property opn e t w = Inr (f, t', w') \<Longrightarrow> self_stubs t' (stub_key opn) = Some f"
  by (auto simp: stub_property_def unary_unary_def split: option.splits sum.splits)

lemma stub_property_keeps:
  assumes "self_stubs t k = Some f" and "stub_property opn e t w = Inr (g, t', w')"
  shows "self_stubs t' k = Some f"
proof (cases "self_stubs t (stub_key opn)")
  case (Some s)
  with assms show ?thesis by (simp add: stub_property_def)
next
  case None
  with assms(2) obtain ch t1 w1 where
    g: "grpc_channel e t w = Inr (ch, t1, w1)" and
    t': "t' = t1\<lparr>self_stubs := (self_stubs t1)(stub_key opn \<mapsto> g)\<rparr>"
    by (auto simp: stub_property_def unary_unary_def split: sum.splits)
  from g have "self_stubs t1 = self_stubs t" by (simp add: grpc_channel_result)
  moreover from None assms(1) have "k \<noteq> stub_key opn" by auto
  ultimately show ?thesis using assms(1) t' by simp
qed

lemma stub_property_fresh:
  assumes "self_stubs t (stub_key opn) = None" and "stub_property opn e t w = Inr (f, t', w')"
  shows "length w \<le> stub_id f \<and> length w < length w'"
proof -
  from assms obtain ch t1 w1 where
    g: "grpc_channel e t w = Inr (ch, t1, w1)" and
    f: "stub_id f = length w1" and w': "length w' = Suc (length w1)"
    by (auto simp: stub_property_def unary_unary_def split: sum.splits)
  from g have "length w \<le> length w1" by (simp add: grpc_channel_result)
  with f w' show ?thesis by simp
qed

lemma stub_property_channel:
  "self_grpc_channel t = Some ch \<Longrightarrow> stub_property opn e t w = Inr (f, t', w') \<Longrightarrow>
     self_grpc_channel t' = Some ch"
  by (auto simp: stub_property_def grpc_channel_def unary_unary_def
      split: option.splits sum.splits)

lemma init_resolved:
  "init e a w = Inr (t, w1) \<Longrightarrow>
     self_grpc_channel t \<noteq> None \<or> (\<exists>c. self_credentials t = Creds c)"
  by (auto simp: init_def finish_init_def base_init_def Let_def py_value_def
      split: option.splits sum.splits list.splits py_credentials.splits if_splits prod.splits)

lemma grpc_channel_returns:
  "self_grpc_channel t \<noteq> None \<or> (\<exists>c. self_credentials t = Creds c) \<Longrightarrow>
     \<exists>ch t' w'. grpc_channel e t w = Inr (ch, t', w')"
  by (auto simp: grpc_channel_def create_channel_def grpc_helpers_create_channel_def Let_def
      split: option.splits)

lemma injected_init:
  "channel a = Some ch \<Longrightarrow>
     init e a w =
       Inr (\<lparr>self_grpc_channel = Some ch, self_stubs = Map.empty,
             self_host = host a, self_credentials = PyFalse\<rparr>, w)"
  by (simp add: init_def finish_init_def base_init_def)

lemma stub_property_returns:
  assumes "self_grpc_channel t \<noteq> None \<or> (\<exists>c. self_credentials t = Creds c)"
  shows "\<exists>f u v. stub_property opn e t w = Inr (f, u, v)"
proof (cases "self_stubs t (stub_key opn)")
  case (Some f)
  then show ?thesis by (simp add: stub_property_def)
next
  case None
  from assms obtain ch t1 w1 where "grpc_channel e t w = Inr (ch, t1, w1)"
    using grpc_channel_returns by blast
  with None show ?thesis by (simp add: stub_property_def unary_unary_def)
qed

lemma operations_complete: "opn \<in> set operations"
  by (cases opn) (simp_all add: operations_def)

subsection \<open>Runs on the concrete inputs\<close>

lemmas run_defs = init_def finish_init_def base_init_def Let_def py_value_def mtls_host_def
  create_channel_def grpc_helpers_create_channel_def auth_default_def assemble_ssl_def
  scopes_or_def default_args_def example_env_def grpc_channel_def first_channel_def

lemma first_list:
  "stub_property list_approval_requests example_env injected_transport [] =
     Inr (list_stub, after_list, [list_call])"
  by (simp add: stub_property_def grpc_channel_def unary_unary_def injected_transport_def
      after_list_def list_stub_def list_call_def example_channel_def)

lemma then_get:
  "stub_property get_approval_request example_env after_list [list_call] =
     Inr (get_stub, after_get, [list_call, get_call])"
  by (simp add: stub_property_def grpc_channel_def unary_unary_def injected_transport_def
      after_list_def after_get_def list_stub_def get_stub_def list_call_def get_call_def
      example_channel_def)

lemma injected_run: "init example_env injected_args [] = Inr (injected_transport, [])"
  by (simp add: run_defs injected_args_def injected_transport_def)

lemma default_run:
  "init example_env default_args [] =
     Inr (lazy_transport, [AuthDefault [''https://www.googleapis.com/auth/cloud-platform''] None])"
  by (simp add: run_defs lazy_transport_def)

lemma lazy_run:
  "grpc_channel example_env lazy_transport [] =
     Inr (lazy_channel, lazy_transport\<lparr>self_grpc_channel := Some lazy_channel\<rparr>,
          [GrpcHelpersCreateChannel ''accessapproval.googleapis.com''])"
  by (simp add: run_defs lazy_transport_def lazy_channel_def)

lemma mtls_args_run: "\<exists>t w'. init example_env mtls_args [] = Inr (t, w')"
  by (simp add: run_defs mtls_args_def)

lemma mtls_port_args_run:
  "\<exists>t w'. init example_env (default_args\<lparr>api_mtls_endpoint := Some ''localhost:8443''\<rparr>) []
      = Inr (t, w')"
  by (simp add: run_defs)

section \<open>The claims\<close>

subsection \<open>C1: credentials together with a credentials file\<close>

text \<open>
  Claim C1 says that constructing the transport with both an explicit credentials object
  and a credentials-file path raises \<^verbatim>\<open>DuplicateCredentialArgs\<close> whatever the
  other parameters are, also when a pre-built channel is supplied. It fails on two inputs.
  With an injected channel the constructor replaces the credentials by \<^verbatim>\<open>False\<close>
  before anything looks at them, and the construction does not raise that error. With a
  mutual-TLS endpoint and no channel, the callback is called before
  \<^verbatim>\<open>create_channel\<close>, and what it raises is what the construction raises.
\<close>

theorem duplicate_credentials_counterexample:
  "init example_env (duplicate_args\<lparr>channel := Some example_channel\<rparr>) []
     \<noteq> Inl DuplicateCredentialArgs
   \<and> init example_env
        (duplicate_args\<lparr>api_mtls_endpoint := Some ''localhost:8443'',
           client_cert_source := Some (Inl (CallbackError ''no certificate''))\<rparr>) []
       = Inl (CallbackError ''no certificate'')"
  by (simp add: init_def finish_init_def base_init_def py_value_def assemble_ssl_def
      duplicate_args_def default_args_def)

text \<open>
  Claim C1, amended: with explicit credentials and a credentials-file path, and no
  injected channel, the construction raises \<^verbatim>\<open>DuplicateCredentialArgs\<close> for every
  host, scope list and quota project, provided that with a non-empty mutual-TLS endpoint
  the SSL credentials can be assembled (the callback returns, or there are application
  default SSL credentials).
\<close>

theorem duplicate_credentials_rejected:
  assumes "credentials a = Some c" and "credentials_file a = Some f"
    and none: "channel a = None"
    and ssl: "api_mtls_endpoint a = None \<or> api_mtls_endpoint a = Some []
        \<or> (\<exists>r. assemble_ssl e (client_cert_source a) w = Inr r)"
  shows "init e a w = Inl DuplicateCredentialArgs"
proof -
  have plain: "finish_init e a None (host a) (py_value (credentials a)) w
      = Inl DuplicateCredentialArgs"
    using assms(1,2) by (simp add: finish_init_def base_init_def py_value_def)
  have mtls: "init e a w = Inl DuplicateCredentialArgs"
    if "api_mtls_endpoint a = Some (x # xs)"
      and "assemble_ssl e (client_cert_source a) w = Inr r" for x xs r
    using that none assms(1,2)
    by (cases r) (simp add: init_def Let_def py_value_def create_channel_def
        grpc_helpers_create_channel_def)
  show ?thesis
  proof (cases "api_mtls_endpoint a")
    case None
    with none plain show ?thesis by (simp add: init_def)
  next
    case (Some ep)
    show ?thesis
    proof (cases ep)
      case Nil
      with Some none plain show ?thesis by (simp add: init_def)
    next
      case (Cons x xs)
      with Some ssl obtain r where "assemble_ssl e (client_cert_source a) w = Inr r"
        by auto
      with Some Cons show ?thesis by (auto intro: mtls)
    qed
  qed
qed

theorem duplicate_credentials_rejected_witness:
  "credentials duplicate_args = Some (Credentials ''explicit'')
   \<and> credentials_file duplicate_args = Some ''credentials.json''
   \<and> channel duplicate_args = None \<and> api_mtls_endpoint duplicate_args = None
   \<and> init example_env duplicate_args [] = Inl DuplicateCredentialArgs
   \<and> assemble_ssl example_env
        (client_cert_source (duplicate_args\<lparr>api_mtls_endpoint := Some ''localhost:8443''\<rparr>)) []
       = Inr (ApplicationDefaultSsl, [SslCredentialsDefault])
   \<and> init example_env (duplicate_args\<lparr>api_mtls_endpoint := Some ''localhost:8443''\<rparr>) []
       = Inl DuplicateCredentialArgs
   \<and> assemble_ssl example_env
        (client_cert_source (duplicate_args\<lparr>api_mtls_endpoint := Some ''localhost:8443'',
           client_cert_source := Some (Inr (''cert'', ''key''))\<rparr>)) []
       = Inr (SslChannelCredentials ''cert'' ''key'',
              [ClientCertSource, GrpcSslChannelCredentials ''cert'' ''key''])
   \<and> init example_env
        (duplicate_args\<lparr>api_mtls_endpoint := Some ''localhost:8443'',
           client_cert_source := Some (Inr (''cert'', ''key''))\<rparr>) []
       = Inl DuplicateCredentialArgs"
  using duplicate_credentials_rejected [of duplicate_args "Credentials ''explicit''"
      "''credentials.json''" example_env "[]"]
    duplicate_credentials_rejected
      [of "duplicate_args\<lparr>api_mtls_endpoint := Some ''localhost:8443''\<rparr>"
        "Credentials ''explicit''" "''credentials.json''" example_env "[]"]
    duplicate_credentials_rejected
      [of "duplicate_args\<lparr>api_mtls_endpoint := Some ''localhost:8443'',
           client_cert_source := Some (Inr (''cert'', ''key''))\<rparr>"
        "Credentials ''explicit''" "''credentials.json''" example_env "[]"]
  by (simp add: duplicate_args_def default_args_def assemble_ssl_def example_env_def)

subsection \<open>C2: stub properties are memoised\<close>

text \<open>
  Claim C2: for every instance and every operation, reading the stub property twice gives
  the same bound callable. The first read that succeeds stores the stub under the
  operation's key; a later read of that property returns the stored stub, leaves the
  instance as it is and logs no call; a read of any stub property leaves the entry in
  place; and when the key was absent the stub is a new object, made by a call that the
  log gained. On an instance that a construction returned, the read succeeds.
\<close>

theorem stub_property_memoised:
  "(stub_property opn e t w = Inr (f, t', w') \<longrightarrow>
      self_stubs t' (stub_key opn) = Some f
      \<and> stub_property opn e t' w2 = Inr (f, t', w2)
      \<and> (stub_property opn' e t' w2 = Inr (g, t'', w3) \<longrightarrow>
           self_stubs t'' (stub_key opn) = Some f)
      \<and> (self_stubs t (stub_key opn) = None \<longrightarrow>
           length w \<le> stub_id f \<and> length w < length w'))
   \<and> (init e a w0 = Inr (s, w1) \<longrightarrow> (\<exists>h u v. stub_property opn e s w = Inr (h, u, v)))"
proof -
  have "self_stubs t' (stub_key opn) = Some f
      \<and> stub_property opn e t' w2 = Inr (f, t', w2)
      \<and> (stub_property opn' e t' w2 = Inr (g, t'', w3) \<longrightarrow>
           self_stubs t'' (stub_key opn) = Some f)
      \<and> (self_stubs t (stub_key opn) = None \<longrightarrow>
           length w \<le> stub_id f \<and> length w < length w')"
    if run: "stub_property opn e t w = Inr (f, t', w')"
  proof -
    have stored: "self_stubs t' (stub_key opn) = Some f"
      using run by (rule stub_property_stores)
    then have again: "stub_property opn e t' w2 = Inr (f, t', w2)"
      by (rule stub_property_cached)
    have kept: "stub_property opn' e t' w2 = Inr (g, t'', w3) \<longrightarrow>
        self_stubs t'' (stub_key opn) = Some f"
      using stored by (auto dest: stub_property_keeps)
    have made: "self_stubs t (stub_key opn) = None \<longrightarrow>
        length w \<le> stub_id f \<and> length w < length w'"
      using run by (auto dest: stub_property_fresh)
    from stored again kept made show ?thesis by simp
  qed
  moreover have "\<exists>h u v. stub_property opn e s w = Inr (h, u, v)"
    if "init e a w0 = Inr (s, w1)"
    using that init_resolved stub_property_returns by blast
  ultimately show ?thesis by blast
qed

theorem stub_property_memoised_witness:
  "stub_property list_approval_requests example_env injected_transport [] =
     Inr (list_stub, after_list, [list_call])
   \<and> self_stubs after_list (stub_key list_approval_requests) = Some list_stub
   \<and> stub_property list_approval_requests example_env after_list [list_call] =
       Inr (list_stub, after_list, [list_call])
   \<and> stub_property get_approval_request example_env after_list [list_call] =
       Inr (get_stub, after_get, [list_call, get_call])
   \<and> self_stubs after_get (stub_key list_approval_requests) = Some list_stub
   \<and> self_stubs injected_transport (stub_key list_approval_requests) = None
   \<and> length ([] :: call list) \<le> stub_id list_stub
   \<and> length ([] :: call list) < length [list_call]
   \<and> init example_env injected_args [] = Inr (injected_transport, [])
   \<and> (\<exists>h u v. stub_property list_approval_requests example_env injected_transport []
         = Inr (h, u, v))"
  using stub_property_memoised [of list_approval_requests example_env injected_transport "[]"
      list_stub after_list "[list_call]" "[list_call]" get_approval_request
      get_stub after_get "[list_call, get_call]" injected_args "[]" injected_transport "[]"]
    first_list then_get injected_run
  by (simp add: injected_transport_def)

subsection \<open>C3: an injected channel skips credential resolution\<close>

text \<open>
  Claim C3: when the caller supplies a pre-built channel, the construction succeeds with
  that channel as the channel of the instance, and the call log is the one it started
  with: \<^verbatim>\<open>auth.default\<close> is not invoked, no credentials file is loaded and
  \<^verbatim>\<open>create_channel\<close> is not called.
\<close>

theorem injected_channel_skips_resolution:
  assumes "channel a = Some ch"
  shows "\<exists>t. init e a w = Inr (t, w) \<and> self_grpc_channel t = Some ch"
  using assms by (simp add: injected_init)

theorem injected_channel_skips_resolution_witness:
  "channel injected_args = Some example_channel
   \<and> (\<exists>t. init example_env injected_args [] = Inr (t, [])
          \<and> self_grpc_channel t = Some example_channel)"
  using injected_channel_skips_resolution [of injected_args example_channel example_env "[]"]
  by (simp add: injected_args_def)

subsection \<open>C4: the default port of the mutual-TLS endpoint\<close>

text \<open>
  Claim C4: for a construction with a mutual-TLS endpoint (a non-empty string, which is
  what the constructor's test \<^verbatim>\<open>elif api_mtls_endpoint\<close> accepts) and no injected
  channel, the target of the channel and the host of the instance are the endpoint with
  \<^verbatim>\<open>:443\<close> appended when the endpoint has no colon, and the endpoint itself when it
  has one.
\<close>

theorem mtls_endpoint_default_port:
  assumes "channel a = None" and "api_mtls_endpoint a = Some ep" and "ep \<noteq> []"
    and "init e a w = Inr (t, w')"
  shows "\<exists>ch. self_grpc_channel t = Some ch
          \<and> (CHR '':'' \<notin> set ep \<longrightarrow> target ch = ep @ '':443'' \<and> self_host t = ep @ '':443'')
          \<and> (CHR '':'' \<in> set ep \<longrightarrow> target ch = ep \<and> self_host t = ep)"
  using assms
  by (auto simp: init_def finish_init_def base_init_def Let_def py_value_def mtls_host_def
      create_channel_def grpc_helpers_create_channel_def auth_default_def
      load_credentials_from_file_def
      split: option.splits sum.splits list.splits py_credentials.splits if_splits prod.splits)

theorem mtls_endpoint_default_port_witness:
  "(\<exists>t w' ch. init example_env mtls_args [] = Inr (t, w')
       \<and> self_grpc_channel t = Some ch
       \<and> target ch = ''accessapproval.mtls.googleapis.com:443''
       \<and> self_host t = ''accessapproval.mtls.googleapis.com:443'')
   \<and> (\<exists>t w' ch.
         init example_env (default_args\<lparr>api_mtls_endpoint := Some ''localhost:8443''\<rparr>) []
           = Inr (t, w')
       \<and> self_grpc_channel t = Some ch
       \<and> target ch = ''localhost:8443'' \<and> self_host t = ''localhost:8443'')"
proof
  from mtls_args_run obtain t w' where run: "init example_env mtls_args [] = Inr (t, w')"
    by blast
  from mtls_endpoint_default_port [OF _ _ _ run, of "''accessapproval.mtls.googleapis.com''"]
  obtain ch where "self_grpc_channel t = Some ch"
    and "target ch = ''accessapproval.mtls.googleapis.com:443''"
    and "self_host t = ''accessapproval.mtls.googleapis.com:443''"
    by (auto simp: mtls_args_def default_args_def)
  with run show "\<exists>t w' ch. init example_env mtls_args [] = Inr (t, w')
       \<and> self_grpc_channel t = Some ch
       \<and> target ch = ''accessapproval.mtls.googleapis.com:443''
       \<and> self_host t = ''accessapproval.mtls.googleapis.com:443''"
    by blast
next
  let ?a = "default_args\<lparr>api_mtls_endpoint := Some ''localhost:8443''\<rparr>"
  from mtls_port_args_run obtain t w' where run: "init example_env ?a [] = Inr (t, w')"
    by blast
  from mtls_endpoint_default_port [OF _ _ _ run, of "''localhost:8443''"]
  obtain ch where "self_grpc_channel t = Some ch"
    and "target ch = ''localhost:8443''" and "self_host t = ''localhost:8443''"
    by (auto simp: default_args_def)
  with run show "\<exists>t w' ch. init example_env ?a [] = Inr (t, w')
       \<and> self_grpc_channel t = Some ch
       \<and> target ch = ''localhost:8443'' \<and> self_host t = ''localhost:8443''"
    by blast
qed

subsection \<open>C5: the method paths\<close>

text \<open>
  Claim C5 says that the transport defines exactly six dispatch entries, with distinct
  paths. The class has seven stub properties, so the list of their paths does not have six
  elements.
\<close>

theorem six_entries_counterexample:
  "\<not> (length (map method_path operations) = 6 \<and> distinct (map method_path operations))"
  by (simp add: operations_def)

text \<open>
  Claim C5, amended: the transport defines exactly seven dispatch entries; their keys are
  distinct, their method paths are distinct, and the path of each is
  \<^verbatim>\<open>/google.cloud.accessapproval.v1.AccessApproval/\<close> followed by the name of the
  operation, which is the key of the entry in camel case.
\<close>

theorem seven_method_paths:
  "length operations = 7 \<and> set operations = UNIV \<and> distinct (map method_path operations)
   \<and> distinct (map stub_key operations)
   \<and> method_path opn = service_prefix @ camel_case True (stub_key opn)"
proof -
  have "set operations = UNIV" using operations_complete by auto
  moreover have "length operations = 7" by (simp add: operations_def)
  moreover have "distinct (map method_path operations)" by (simp add: operations_def)
  moreover have "distinct (map stub_key operations)" by (simp add: operations_def)
  moreover have "method_path opn = service_prefix @ camel_case True (stub_key opn)"
    by (cases opn) (simp_all add: upper_def service_prefix_def)
  ultimately show ?thesis by simp
qed

subsection \<open>C6: the eager and the lazy channel\<close>

text \<open>
  Claim C6 says that, with no injected channel, the channel built during construction (the
  mutual-TLS branch) and the channel built on the first read of the channel property have
  the same configuration (credentials, credentials file, scopes, SSL credentials, quota
  project). For the same scope list and quota project of the caller and the same target,
  the two differ: the lazy channel has no SSL credentials, the default scopes and no quota
  project.
\<close>

theorem eager_lazy_counterexample:
  "map_sum id channel_config
     (first_channel example_env
        (custom_args\<lparr>api_mtls_endpoint := Some ''accessapproval.mtls.googleapis.com:443''\<rparr>) [])
   \<noteq> map_sum id channel_config
     (first_channel example_env
        (custom_args\<lparr>host := ''accessapproval.mtls.googleapis.com:443''\<rparr>) [])"
  by (simp add: run_defs custom_args_def channel_config_def)

text \<open>
  Claim C6, amended: with no injected channel, both channels come from
  \<^verbatim>\<open>create_channel\<close>, called with the host and the credentials of the instance, but
  not with the same other arguments. The channel built during construction carries the
  caller's credentials file, the caller's scopes (the default ones when there are none),
  SSL credentials and the caller's quota project; the channel built on the first read of
  the property is \<^verbatim>\<open>create_channel(self._host, credentials=self._credentials)\<close> and
  carries no credentials file, the default scopes, no SSL credentials and no quota project.
\<close>

theorem eager_lazy_configurations:
  "(channel a = None \<and> api_mtls_endpoint a = Some ep \<and> ep \<noteq> [] \<and> init e a w = Inr (t, w1) \<longrightarrow>
      (\<exists>ch ssl. self_grpc_channel t = Some ch \<and> target ch = self_host t
         \<and> self_credentials t = Creds (channel_credentials ch)
         \<and> channel_credentials_file ch = credentials_file a
         \<and> channel_scopes ch = scopes_or (scopes a) (AUTH_SCOPES e)
         \<and> channel_ssl_credentials ch = Some ssl
         \<and> channel_quota_project_id ch = quota_project_id a))
   \<and> (self_grpc_channel t0 = None \<and> grpc_channel e t0 w0 = Inr (ch0, t0', w0') \<longrightarrow>
        create_channel e (self_host t0) (self_credentials t0) None None None None w0
          = Inr (ch0, w0')
        \<and> target ch0 = self_host t0
        \<and> (\<forall>c. self_credentials t0 = Creds c \<longrightarrow> channel_credentials ch0 = c)
        \<and> channel_credentials_file ch0 = None
        \<and> channel_scopes ch0 = AUTH_SCOPES e
        \<and> channel_ssl_credentials ch0 = None
        \<and> channel_quota_project_id ch0 = None)"
proof
  show "channel a = None \<and> api_mtls_endpoint a = Some ep \<and> ep \<noteq> [] \<and> init e a w = Inr (t, w1) \<longrightarrow>
      (\<exists>ch ssl. self_grpc_channel t = Some ch \<and> target ch = self_host t
         \<and> self_credentials t = Creds (channel_credentials ch)
         \<and> channel_credentials_file ch = credentials_file a
         \<and> channel_scopes ch = scopes_or (scopes a) (AUTH_SCOPES e)
         \<and> channel_ssl_credentials ch = Some ssl
         \<and> channel_quota_project_id ch = quota_project_id a)"
    by (auto simp: init_def finish_init_def base_init_def Let_def py_value_def
        create_channel_def grpc_helpers_create_channel_def auth_default_def
        load_credentials_from_file_def scopes_or_def
        split: option.splits sum.splits list.splits py_credentials.splits if_splits prod.splits)
next
  show "self_grpc_channel t0 = None \<and> grpc_channel e t0 w0 = Inr (ch0, t0', w0') \<longrightarrow>
        create_channel e (self_host t0) (self_credentials t0) None None None None w0
          = Inr (ch0, w0')
        \<and> target ch0 = self_host t0
        \<and> (\<forall>c. self_credentials t0 = Creds c \<longrightarrow> channel_credentials ch0 = c)
        \<and> channel_credentials_file ch0 = None
        \<and> channel_scopes ch0 = AUTH_SCOPES e
        \<and> channel_ssl_credentials ch0 = None
        \<and> channel_quota_project_id ch0 = None"
    by (auto simp: grpc_channel_def create_channel_def grpc_helpers_create_channel_def
        Let_def auth_default_def load_credentials_from_file_def scopes_or_def
        split: option.splits sum.splits py_credentials.splits)
qed

theorem eager_lazy_configurations_witness:
  "(\<exists>t w1 ch. init example_env (custom_args\<lparr>api_mtls_endpoint := Some ''localhost:8443''\<rparr>) []
        = Inr (t, w1)
      \<and> self_grpc_channel t = Some ch
      \<and> channel_scopes ch = [''https://www.googleapis.com/auth/cloud-platform.read-only'']
      \<and> channel_ssl_credentials ch \<noteq> None
      \<and> channel_quota_project_id ch = Some ''billing-project'')
   \<and> self_grpc_channel lazy_transport = None
   \<and> grpc_channel example_env lazy_transport [] =
       Inr (lazy_channel, lazy_transport\<lparr>self_grpc_channel := Some lazy_channel\<rparr>,
            [GrpcHelpersCreateChannel ''accessapproval.googleapis.com''])
   \<and> channel_scopes lazy_channel = AUTH_SCOPES example_env
   \<and> channel_ssl_credentials lazy_channel = None
   \<and> channel_quota_project_id lazy_channel = None
   \<and> channel_credentials_file lazy_channel = None"
proof -
  let ?a = "custom_args\<lparr>api_mtls_endpoint := Some ''localhost:8443''\<rparr>"
  have "\<exists>t w1. init example_env ?a [] = Inr (t, w1)"
    by (simp add: run_defs custom_args_def)
  then obtain t w1 where run: "init example_env ?a [] = Inr (t, w1)" by blast
  have args: "channel ?a = None" "api_mtls_endpoint ?a = Some ''localhost:8443''"
    "scopes ?a = Some [''https://www.googleapis.com/auth/cloud-platform.read-only'']"
    "quota_project_id ?a = Some ''billing-project''"
    by (simp_all add: custom_args_def default_args_def)
  from eager_lazy_configurations [THEN conjunct1, of ?a "''localhost:8443''" example_env "[]" t w1]
    run args
  have "\<exists>ch ssl. self_grpc_channel t = Some ch
      \<and> channel_scopes ch = [''https://www.googleapis.com/auth/cloud-platform.read-only'']
      \<and> channel_ssl_credentials ch = Some ssl
      \<and> channel_quota_project_id ch = Some ''billing-project''"
    by (auto simp: scopes_or_def)
  then obtain ch where "self_grpc_channel t = Some ch"
    and "channel_scopes ch = [''https://www.googleapis.com/auth/cloud-platform.read-only'']"
    and "channel_ssl_credentials ch \<noteq> None"
    and "channel_quota_project_id ch = Some ''billing-project''"
    by auto
  with run have eager: "\<exists>t w1 ch. init example_env ?a [] = Inr (t, w1)
      \<and> self_grpc_channel t = Some ch
      \<and> channel_scopes ch = [''https://www.googleapis.com/auth/cloud-platform.read-only'']
      \<and> channel_ssl_credentials ch \<noteq> None
      \<and> channel_quota_project_id ch = Some ''billing-project''"
    by blast
  have none: "self_grpc_channel lazy_transport = None"
    by (simp add: lazy_transport_def)
  from eager_lazy_configurations [THEN conjunct2, of lazy_transport example_env "[]"
      lazy_channel "lazy_transport\<lparr>self_grpc_channel := Some lazy_channel\<rparr>"
      "[GrpcHelpersCreateChannel ''accessapproval.googleapis.com'']"] none lazy_run
  have "channel_scopes lazy_channel = AUTH_SCOPES example_env
      \<and> channel_ssl_credentials lazy_channel = None
      \<and> channel_quota_project_id lazy_channel = None
      \<and> channel_credentials_file lazy_channel = None"
    by simp
  with eager none lazy_run show ?thesis by simp
qed

subsection \<open>C7: the scopes of ambient discovery\<close>

text \<open>
  Claim C7: with no credentials, no credentials file and no injected channel, the
  credentials are discovered from the environment for the scope list the caller requested,
  the default list being used only when the caller requested none. In the mutual-TLS
  branch the constructor calls \<^verbatim>\<open>auth.default(scopes=self.AUTH_SCOPES, ...)\<close>: on the
  input below, where the caller requests the read-only scope, the discovery that the log
  records is for the default scope list.
\<close>

theorem mtls_discovery_ignores_requested_scopes:
  "map_sum id snd
     (init example_env
        (mtls_args\<lparr>scopes := Some [''https://www.googleapis.com/auth/cloud-platform.read-only'']\<rparr>)
        [])
   = Inr [AuthDefault [''https://www.googleapis.com/auth/cloud-platform''] None,
          SslCredentialsDefault,
          GrpcHelpersCreateChannel ''accessapproval.mtls.googleapis.com:443'']"
  by (simp add: run_defs mtls_args_def)

subsection \<open>C8: one channel for each instance\<close>

text \<open>
  Claim C8: an instance holds at most one channel. The channel property returns the
  channel the instance has, changing nothing and logging no call; when it makes one, it
  stores it, and every later read returns that channel; the stub properties leave the
  channel of the instance in place; and on an instance that a construction returned, the
  read of the channel property returns a channel.
\<close>

theorem one_channel_per_instance:
  "(self_grpc_channel t = Some ch \<longrightarrow> grpc_channel e t w = Inr (ch, t, w))
   \<and> (grpc_channel e t w = Inr (ch', t', w') \<longrightarrow>
        self_grpc_channel t' = Some ch' \<and> grpc_channel e t' w2 = Inr (ch', t', w2))
   \<and> (self_grpc_channel t = Some ch \<and> stub_property opn e t w = Inr (f, t2, w3) \<longrightarrow>
        self_grpc_channel t2 = Some ch)
   \<and> (init e a w0 = Inr (t, w1) \<longrightarrow> (\<exists>c u v. grpc_channel e t w = Inr (c, u, v)))"
proof -
  have one: "self_grpc_channel t = Some ch \<longrightarrow> grpc_channel e t w = Inr (ch, t, w)"
    by (simp add: grpc_channel_present)
  have two: "grpc_channel e t w = Inr (ch', t', w') \<longrightarrow>
        self_grpc_channel t' = Some ch' \<and> grpc_channel e t' w2 = Inr (ch', t', w2)"
    by (auto dest: grpc_channel_result simp: grpc_channel_present)
  have three: "self_grpc_channel t = Some ch \<and> stub_property opn e t w = Inr (f, t2, w3) \<longrightarrow>
        self_grpc_channel t2 = Some ch"
    by (auto dest: stub_property_channel)
  have four: "init e a w0 = Inr (t, w1) \<longrightarrow> (\<exists>c u v. grpc_channel e t w = Inr (c, u, v))"
    using init_resolved grpc_channel_returns by blast
  from one two three four show ?thesis by simp
qed

theorem one_channel_per_instance_witness:
  "self_grpc_channel injected_transport = Some example_channel
   \<and> grpc_channel example_env injected_transport [] = Inr (example_channel, injected_transport, [])
   \<and> stub_property list_approval_requests example_env injected_transport [] =
       Inr (list_stub, after_list, [list_call])
   \<and> self_grpc_channel after_list = Some example_channel
   \<and> init example_env injected_args [] = Inr (injected_transport, [])
   \<and> init example_env default_args [] =
       Inr (lazy_transport, [AuthDefault [''https://www.googleapis.com/auth/cloud-platform''] None])
   \<and> grpc_channel example_env lazy_transport [] =
       Inr (lazy_channel, lazy_transport\<lparr>self_grpc_channel := Some lazy_channel\<rparr>,
            [GrpcHelpersCreateChannel ''accessapproval.googleapis.com''])
   \<and> grpc_channel example_env (lazy_transport\<lparr>self_grpc_channel := Some lazy_channel\<rparr>)
         [GrpcHelpersCreateChannel ''accessapproval.googleapis.com''] =
       Inr (lazy_channel, lazy_transport\<lparr>self_grpc_channel := Some lazy_channel\<rparr>,
            [GrpcHelpersCreateChannel ''accessapproval.googleapis.com''])"
proof -
  have has: "self_grpc_channel injected_transport = Some example_channel"
    by (simp add: injected_transport_def)
  from one_channel_per_instance [of injected_transport example_channel example_env "[]"
      example_channel injected_transport "[]" "[]" list_approval_requests list_stub after_list
      "[list_call]" injected_args "[]" "[]"] has first_list injected_run
  have injected: "grpc_channel example_env injected_transport [] =
      Inr (example_channel, injected_transport, [])
    \<and> self_grpc_channel after_list = Some example_channel"
    by simp
  from one_channel_per_instance [of lazy_transport _ example_env "[]" lazy_channel
      "lazy_transport\<lparr>self_grpc_channel := Some lazy_channel\<rparr>"
      "[GrpcHelpersCreateChannel ''accessapproval.googleapis.com'']"
      "[GrpcHelpersCreateChannel ''accessapproval.googleapis.com'']"] lazy_run
  have again: "grpc_channel example_env (lazy_transport\<lparr>self_grpc_channel := Some lazy_channel\<rparr>)
         [GrpcHelpersCreateChannel ''accessapproval.googleapis.com''] =
       Inr (lazy_channel, lazy_transport\<lparr>self_grpc_channel := Some lazy_channel\<rparr>,
            [GrpcHelpersCreateChannel ''accessapproval.googleapis.com''])"
    by simp
  from has injected again first_list injected_run default_run lazy_run show ?thesis by simp
qed

subsection \<open>C9: an injected channel takes precedence over mutual TLS\<close>

text \<open>
  Claim C9: when both a pre-built channel and a mutual-TLS endpoint are supplied, the
  constructor goes from the channel branch straight to the base constructor, with the
  caller's host; the result is the one of the same construction without the endpoint and
  without the callback; the construction succeeds with the injected channel as the channel
  of the instance, and the call log is the one it started with, so no SSL credentials are
  assembled and the callback is not invoked.
\<close>

theorem injected_channel_overrides_mtls:
  assumes "channel a = Some ch" and "api_mtls_endpoint a = Some ep"
  shows "init e a w = finish_init e a (Some ch) (host a) PyFalse w
       \<and> init e a w = init e (a\<lparr>api_mtls_endpoint := None, client_cert_source := None\<rparr>) w
       \<and> (\<exists>t. init e a w = Inr (t, w) \<and> self_grpc_channel t = Some ch)"
  using assms by (simp add: init_def finish_init_def base_init_def)

theorem injected_channel_overrides_mtls_witness:
  "channel (mtls_args\<lparr>channel := Some example_channel,
        client_cert_source := Some (Inl (CallbackError ''unreachable''))\<rparr>) = Some example_channel
   \<and> api_mtls_endpoint (mtls_args\<lparr>channel := Some example_channel,
        client_cert_source := Some (Inl (CallbackError ''unreachable''))\<rparr>)
       = Some ''accessapproval.mtls.googleapis.com''
   \<and> init example_env (mtls_args\<lparr>channel := Some example_channel,
        client_cert_source := Some (Inl (CallbackError ''unreachable''))\<rparr>) []
       = init example_env injected_args []
   \<and> (\<exists>t. init example_env (mtls_args\<lparr>channel := Some example_channel,
        client_cert_source := Some (Inl (CallbackError ''unreachable''))\<rparr>) [] = Inr (t, [])
        \<and> self_grpc_channel t = Some example_channel)"
proof -
  let ?a = "mtls_args\<lparr>channel := Some example_channel,
        client_cert_source := Some (Inl (CallbackError ''unreachable''))\<rparr>"
  have ch: "channel ?a = Some example_channel"
    by (simp add: mtls_args_def default_args_def)
  have ep: "api_mtls_endpoint ?a = Some ''accessapproval.mtls.googleapis.com''"
    by (simp add: mtls_args_def default_args_def)
  have plain: "?a\<lparr>api_mtls_endpoint := None, client_cert_source := None\<rparr> = injected_args"
    by (simp add: mtls_args_def injected_args_def default_args_def)
  note run = injected_channel_overrides_mtls [OF ch ep, of example_env "[]"]
  from run have "init example_env ?a []
      = init example_env (?a\<lparr>api_mtls_endpoint := None, client_cert_source := None\<rparr>) []"
    by blast
  with plain have same: "init example_env ?a [] = init example_env injected_args []"
    by simp
  from run have "\<exists>t. init example_env ?a [] = Inr (t, [])
      \<and> self_grpc_channel t = Some example_channel"
    by blast
  with ch ep same show ?thesis by blast
qed

subsection \<open>C10: with an injected channel the credentials do not matter\<close>

text \<open>
  Claim C10: when a pre-built channel is supplied, two constructions that differ only in
  the credentials argument have the same result, instance and call log.
\<close>

theorem injected_channel_ignores_credentials:
  assumes "channel a = Some ch"
  shows "init e (a\<lparr>credentials := c1\<rparr>) w = init e (a\<lparr>credentials := c2\<rparr>) w"
  using assms by (simp add: init_def finish_init_def)

theorem injected_channel_ignores_credentials_witness:
  "channel injected_args = Some example_channel
   \<and> init example_env (injected_args\<lparr>credentials := None\<rparr>) []
       = init example_env (injected_args\<lparr>credentials := Some (Credentials ''explicit'')\<rparr>) []"
  using injected_channel_ignores_credentials [of injected_args example_channel example_env
      None "[]" "Some (Credentials ''explicit'')"]
  by (simp add: injected_args_def)

end
